theory Spec2Isabelle
  imports Main "HOL-Library.Char_ord" "HOL-Library.List_Lexorder" "HOL-Library.Sublist"
begin

section \<open>JavaScript values\<close>

text \<open>
  The web client (\<^verbatim>\<open>web/app/page.js\<close>) and the API route
  (\<^verbatim>\<open>web/app/api/chat/route.js\<close>) work on untyped JSON data: the request body, the
  model's structured output, the exercise objects. The embedding therefore uses one type of
  JavaScript values. An object is the list of its own properties in insertion order. An
  array carries its elements and, beside them, the named properties that an assignment such
  as \<^verbatim>\<open>out.poll = ...\<close> puts on it (\<^verbatim>\<open>typeof [] === "object"\<close>, so the normalizer
  accepts an array as \<^verbatim>\<open>out\<close>).

  Numbers are the integers: the code compares numbers with the literals \<^verbatim>\<open>1\<close> and
  \<^verbatim>\<open>0\<close> only, and prints them in templates. A string is a list of 8-bit characters,
  read as the UTF-16 code units U+0000 to U+00FF (ASCII and the Latin-1 supplement, which
  holds the accented letters of the western European languages and the no-break space). On
  these strings the text functions below (\<^verbatim>\<open>trim\<close>, \<^verbatim>\<open>toLowerCase\<close>, the classes
  \<^verbatim>\<open>\s\<close> and \<^verbatim>\<open>\w\<close>) are their JavaScript counterparts. A string with a code unit above
  U+00FF has no value in this type and is outside the embedding.
\<close>

datatype jsval =
    JUndefined
  | JNull
  | JBool bool
  | JNum int
  | JStr string
  | JArr "jsval list" "(string \<times> jsval) list"
  | JObj "(string \<times> jsval) list"

datatype js_error =
    TypeError
  | SyntaxError
  | Thrown string

subsection \<open>Own properties\<close>

fun props_get :: "(string \<times> jsval) list \<Rightarrow> string \<Rightarrow> jsval" where
  "props_get [] k = JUndefined"
| "props_get ((k', v) # ps) k = (if k' = k then v else props_get ps k)"

fun props_has :: "(string \<times> jsval) list \<Rightarrow> string \<Rightarrow> bool" where
  "props_has [] k = False"
| "props_has ((k', v) # ps) k = (k' = k \<or> props_has ps k)"

text \<open>Assignment keeps the position of an existing property and appends a new one.\<close>

fun props_set :: "(string \<times> jsval) list \<Rightarrow> string \<Rightarrow> jsval \<Rightarrow> (string \<times> jsval) list" where
  "props_set [] k v = [(k, v)]"
| "props_set ((k', v') # ps) k v =
     (if k' = k then (k, v) # ps else (k', v') # props_set ps k v)"

fun props_delete :: "(string \<times> jsval) list \<Rightarrow> string \<Rightarrow> (string \<times> jsval) list" where
  "props_delete [] k = []"
| "props_delete ((k', v) # ps) k =
     (if k' = k then props_delete ps k else (k', v) # props_delete ps k)"

text \<open>
  \<^verbatim>\<open>v.k\<close> and \<^verbatim>\<open>v?.k\<close> for a fixed property name \<^verbatim>\<open>k\<close>. None of the names the code
  reads this way is inherited from a prototype or is an array index, so the value is the
  own property or \<^verbatim>\<open>undefined\<close>. On \<^verbatim>\<open>null\<close> and \<^verbatim>\<open>undefined\<close> this is the optional
  chaining \<^verbatim>\<open>v?.k\<close>; a plain \<^verbatim>\<open>v.k\<close> that the code does not guard is \<open>get_strict\<close>.
\<close>

fun get_prop :: "jsval \<Rightarrow> string \<Rightarrow> jsval" where
  "get_prop (JObj ps) k = props_get ps k"
| "get_prop (JArr xs ps) k = props_get ps k"
| "get_prop v k = JUndefined"

fun get_strict :: "jsval \<Rightarrow> string \<Rightarrow> js_error + jsval" where
  "get_strict JUndefined k = Inl TypeError"
| "get_strict JNull k = Inl TypeError"
| "get_strict v k = Inr (get_prop v k)"

text \<open>\<^verbatim>\<open>v.k = w\<close> for a fixed name, on an object or an array.\<close>

fun set_prop :: "jsval \<Rightarrow> string \<Rightarrow> jsval \<Rightarrow> jsval" where
  "set_prop (JObj ps) k w = JObj (props_set ps k w)"
| "set_prop (JArr xs ps) k w = JArr xs (props_set ps k w)"
| "set_prop v k w = v"

text \<open>\<^verbatim>\<open>delete v.k\<close>: removes an own property, and does nothing on a primitive.\<close>

fun delete_prop :: "jsval \<Rightarrow> string \<Rightarrow> jsval" where
  "delete_prop (JObj ps) k = JObj (props_delete ps k)"
| "delete_prop (JArr xs ps) k = JArr xs (props_delete ps k)"
| "delete_prop v k = v"

subsection \<open>Tests on values\<close>

fun truthy :: "jsval \<Rightarrow> bool" where
  "truthy JUndefined = False"
| "truthy JNull = False"
| "truthy (JBool b) = b"
| "truthy (JNum n) = (n \<noteq> 0)"
| "truthy (JStr s) = (s \<noteq> [])"
| "truthy (JArr xs ps) = True"
| "truthy (JObj ps) = True"

text \<open>\<^verbatim>\<open>typeof v === "object"\<close> holds of \<^verbatim>\<open>null\<close>, of arrays and of objects.\<close>

fun typeof_object :: "jsval \<Rightarrow> bool" where
  "typeof_object JNull = True"
| "typeof_object (JArr xs ps) = True"
| "typeof_object (JObj ps) = True"
| "typeof_object v = False"

fun typeof_string :: "jsval \<Rightarrow> bool" where
  "typeof_string (JStr s) = True"
| "typeof_string v = False"

fun isArray :: "jsval \<Rightarrow> bool" where
  "isArray (JArr xs ps) = True"
| "isArray v = False"

text \<open>\<^verbatim>\<open>a ?? b\<close>.\<close>

fun nullish :: "jsval \<Rightarrow> jsval \<Rightarrow> jsval" where
  "nullish JUndefined b = b"
| "nullish JNull b = b"
| "nullish a b = a"

section \<open>Text\<close>

text \<open>
  The white space of \<^verbatim>\<open>trim()\<close> and of the class \<^verbatim>\<open>\s\<close> (ECMAScript's WhiteSpace and
  LineTerminator) up to U+00FF: tab, LF, VT, FF, CR, space and the no-break space U+00A0.
\<close>

definition js_space :: "char \<Rightarrow> bool" where
  "js_space c =
     (c \<in> set [CHR 0x09, CHR 0x0A, CHR 0x0B, CHR 0x0C, CHR 0x0D, CHR 0x20, CHR 0xA0])"

text \<open>The class \<^verbatim>\<open>[a-zA-Z0-9_]\<close>, which is also \<^verbatim>\<open>\w\<close>.\<close>

definition word_char :: "char \<Rightarrow> bool" where
  "word_char c =
     (c \<in> set ''abcdefghijklmnopqrstuvwxyzABCDEFGHIJKLMNOPQRSTUVWXYZ0123456789_'')"

text \<open>
  The letters up to U+00FF that have two cases, in the order of Unicode's case mapping:
  A to Z, then U+00C0 to U+00DE without the multiplication sign U+00D7, each paired with
  the letter of the other case (a to z, U+00E0 to U+00FE without the division sign
  U+00F7).
\<close>

definition upper_letters :: string where
  "upper_letters = ''ABCDEFGHIJKLMNOPQRSTUVWXYZ'' @
     [CHR 0xC0, CHR 0xC1, CHR 0xC2, CHR 0xC3, CHR 0xC4, CHR 0xC5, CHR 0xC6, CHR 0xC7,
      CHR 0xC8, CHR 0xC9, CHR 0xCA, CHR 0xCB, CHR 0xCC, CHR 0xCD, CHR 0xCE, CHR 0xCF,
      CHR 0xD0, CHR 0xD1, CHR 0xD2, CHR 0xD3, CHR 0xD4, CHR 0xD5, CHR 0xD6,
      CHR 0xD8, CHR 0xD9, CHR 0xDA, CHR 0xDB, CHR 0xDC, CHR 0xDD, CHR 0xDE]"

definition lower_letters :: string where
  "lower_letters = ''abcdefghijklmnopqrstuvwxyz'' @
     [CHR 0xE0, CHR 0xE1, CHR 0xE2, CHR 0xE3, CHR 0xE4, CHR 0xE5, CHR 0xE6, CHR 0xE7,
      CHR 0xE8, CHR 0xE9, CHR 0xEA, CHR 0xEB, CHR 0xEC, CHR 0xED, CHR 0xEE, CHR 0xEF,
      CHR 0xF0, CHR 0xF1, CHR 0xF2, CHR 0xF3, CHR 0xF4, CHR 0xF5, CHR 0xF6,
      CHR 0xF8, CHR 0xF9, CHR 0xFA, CHR 0xFB, CHR 0xFC, CHR 0xFD, CHR 0xFE]"

text \<open>
  \<^verbatim>\<open>toLowerCase()\<close> maps each upper-case letter to its lower-case letter and leaves every
  other code unit as it is (the sharp s U+00DF, the micro sign U+00B5 and U+00FF are
  lower-case already).
\<close>

definition lower_char :: "char \<Rightarrow> char" where
  "lower_char c =
     (case map_of (zip upper_letters lower_letters) c of
        Some d \<Rightarrow> d
      | None \<Rightarrow> c)"

definition toLowerCase :: "string \<Rightarrow> string" where
  "toLowerCase s = map lower_char s"

text \<open>
  \<^verbatim>\<open>toUpperCase()\<close> maps each lower-case letter to its upper-case letter and the sharp s
  to \<^verbatim>\<open>SS\<close>. The upper case of the micro sign (U+039C) and of U+00FF (U+0178) lies above
  U+00FF: on a string with one of these two the result has no value in this type, and the
  function below leaves them in place. The client calls \<^verbatim>\<open>toUpperCase()\<close> in one place,
  on the two characters that matched a level code.
\<close>

definition upper_char :: "char \<Rightarrow> string" where
  "upper_char c =
     (if c = CHR 0xDF then ''SS''
      else case map_of (zip lower_letters upper_letters) c of
             Some d \<Rightarrow> [d]
           | None \<Rightarrow> [c])"

definition toUpperCase :: "string \<Rightarrow> string" where
  "toUpperCase s = concat (map upper_char s)"

definition trim :: "string \<Rightarrow> string" where
  "trim s = rev (dropWhile js_space (rev (dropWhile js_space s)))"

text \<open>\<^verbatim>\<open>t.includes(k)\<close>: \<open>k\<close> occurs in \<open>t\<close> as a contiguous run.\<close>

fun js_includes :: "string \<Rightarrow> string \<Rightarrow> bool" where
  "js_includes [] k = (k = [])"
| "js_includes (c # cs) k = (prefix k (c # cs) \<or> js_includes cs k)"

text \<open>\<^verbatim>\<open>parts.join(sep)\<close> on an array of strings.\<close>

fun join :: "string \<Rightarrow> string list \<Rightarrow> string" where
  "join sep [] = []"
| "join sep [x] = x"
| "join sep (x # y # ys) = x @ sep @ join sep (y # ys)"

text \<open>Decimal digits of a number, as \<^verbatim>\<open>String(n)\<close> prints an integer.\<close>

definition digit_char :: "nat \<Rightarrow> char" where
  "digit_char d = ''0123456789abcdef'' ! d"

fun dec_nat :: "nat \<Rightarrow> string" where
  "dec_nat n = (if n < 10 then [digit_char n] else dec_nat (n div 10) @ [digit_char (n mod 10)])"

definition dec_int :: "int \<Rightarrow> string" where
  "dec_int i = (if i < 0 then CHR ''-'' # dec_nat (nat (- i)) else dec_nat (nat i))"

text \<open>
  \<^verbatim>\<open>String(v)\<close>, which is also what a template literal \<^verbatim>\<open>${v}\<close> and a computed
  property key \<^verbatim>\<open>o[v]\<close> apply to \<open>v\<close>. An array prints its elements joined by commas,
  with \<^verbatim>\<open>null\<close> and \<^verbatim>\<open>undefined\<close> elements as the empty string.
\<close>

fun js_String :: "jsval \<Rightarrow> string"
  and js_String_elems :: "jsval list \<Rightarrow> string list" where
  "js_String JUndefined = ''undefined''"
| "js_String JNull = ''null''"
| "js_String (JBool b) = (if b then ''true'' else ''false'')"
| "js_String (JNum n) = dec_int n"
| "js_String (JStr s) = s"
| "js_String (JArr xs ps) = join '','' (js_String_elems xs)"
| "js_String (JObj ps) = ''[object Object]''"
| "js_String_elems [] = []"
| "js_String_elems (x # xs) =
     (if x = JUndefined \<or> x = JNull then [] else js_String x) # js_String_elems xs"

section \<open>JSON\<close>

text \<open>
  \<^verbatim>\<open>JSON.stringify\<close>. A string is quoted, with the quote, the backslash and the control
  characters escaped.
\<close>

definition escape_char :: "char \<Rightarrow> string" where
  "escape_char c =
     (if c = CHR 0x22 then [CHR 0x5C, CHR 0x22]
      else if c = CHR 0x5C then [CHR 0x5C, CHR 0x5C]
      else if c = CHR 0x08 then [CHR 0x5C, CHR ''b'']
      else if c = CHR 0x0C then [CHR 0x5C, CHR ''f'']
      else if c = CHR 0x0A then [CHR 0x5C, CHR ''n'']
      else if c = CHR 0x0D then [CHR 0x5C, CHR ''r'']
      else if c = CHR 0x09 then [CHR 0x5C, CHR ''t'']
      else if (of_char c :: nat) < 32
        then [CHR 0x5C, CHR ''u'', CHR ''0'', CHR ''0'',
              digit_char (of_char c div 16), digit_char (of_char c mod 16)]
      else [c])"

definition quote :: "string \<Rightarrow> string" where
  "quote s = CHR 0x22 # concat (map escape_char s) @ [CHR 0x22]"

text \<open>
  A property whose value is \<^verbatim>\<open>undefined\<close> is left out of an object and printed as
  \<^verbatim>\<open>null\<close> in an array; the named properties of an array are not printed. At top level
  \<^verbatim>\<open>JSON.stringify(undefined)\<close> is \<^verbatim>\<open>undefined\<close>, which the only reader of the
  result, \<^verbatim>\<open>String(vars[key])\<close> in \<^verbatim>\<open>renderTemplate\<close>, prints as the text below.
\<close>

fun JSON_stringify :: "jsval \<Rightarrow> string"
  and stringify_elems :: "jsval list \<Rightarrow> string list"
  and stringify_members :: "(string \<times> jsval) list \<Rightarrow> string list" where
  "JSON_stringify JUndefined = ''undefined''"
| "JSON_stringify JNull = ''null''"
| "JSON_stringify (JBool b) = (if b then ''true'' else ''false'')"
| "JSON_stringify (JNum n) = dec_int n"
| "JSON_stringify (JStr s) = quote s"
| "JSON_stringify (JArr xs ps) = ''['' @ join '','' (stringify_elems xs) @ '']''"
| "JSON_stringify (JObj ps) = ''{'' @ join '','' (stringify_members ps) @ ''}''"
| "stringify_elems [] = []"
| "stringify_elems (x # xs) =
     (if x = JUndefined then ''null'' else JSON_stringify x) # stringify_elems xs"
| "stringify_members [] = []"
| "stringify_members ((k, v) # ps) =
     (if v = JUndefined then stringify_members ps
      else (quote k @ '':'' @ JSON_stringify v) # stringify_members ps)"

text \<open>
  \<^verbatim>\<open>JSON.parse(JSON.stringify(v))\<close> on an object or an array: the deep copy that
  \<^verbatim>\<open>redactActiveForModel\<close> takes. It loses what \<^verbatim>\<open>JSON.stringify\<close> does not print.
\<close>

fun json_clone :: "jsval \<Rightarrow> jsval"
  and clone_elems :: "jsval list \<Rightarrow> jsval list"
  and clone_members :: "(string \<times> jsval) list \<Rightarrow> (string \<times> jsval) list" where
  "json_clone (JArr xs ps) = JArr (clone_elems xs) []"
| "json_clone (JObj ps) = JObj (clone_members ps)"
| "json_clone JUndefined = JUndefined"
| "json_clone JNull = JNull"
| "json_clone (JBool b) = JBool b"
| "json_clone (JNum n) = JNum n"
| "json_clone (JStr s) = JStr s"
| "clone_elems [] = []"
| "clone_elems (x # xs) = (if x = JUndefined then JNull else json_clone x) # clone_elems xs"
| "clone_members [] = []"
| "clone_members ((k, v) # ps) =
     (if v = JUndefined then clone_members ps else (k, json_clone v) # clone_members ps)"

section \<open>Prompt templates (route.js)\<close>

text \<open>
  One match of \<^verbatim>\<open>/{{\s*([a-zA-Z0-9_]+)\s*}}/\<close> at the head of the text: the captured key
  and the text after the match. White space, key characters and the brace are disjoint
  classes, so the greedy match is the only one.
\<close>

definition match_placeholder :: "string \<Rightarrow> (string \<times> string) option" where
  "match_placeholder s =
     (case s of
        c1 # c2 # r \<Rightarrow>
          if c1 = CHR ''{'' \<and> c2 = CHR ''{'' then
            (let r1 = dropWhile js_space r;
                 key = takeWhile word_char r1;
                 r2 = dropWhile js_space (dropWhile word_char r1)
             in if key = [] then None
                else (case r2 of
                        d1 # d2 # rest \<Rightarrow>
                          if d1 = CHR ''}'' \<and> d2 = CHR ''}'' then Some (key, rest) else None
                      | _ \<Rightarrow> None))
          else None
      | _ \<Rightarrow> None)"

lemma match_placeholder_shorter:
  "match_placeholder s = Some (key, rest) \<Longrightarrow> length rest < length s"
proof -
  assume m: "match_placeholder s = Some (key, rest)"
  then obtain c1 c2 r where s: "s = c1 # c2 # r"
    by (auto simp: match_placeholder_def split: list.splits)
  let ?r2 = "dropWhile js_space (dropWhile word_char (dropWhile js_space r))"
  from m s obtain d1 d2 where r2: "?r2 = d1 # d2 # rest"
    by (auto simp: match_placeholder_def Let_def split: list.splits if_splits)
  have "length ?r2 \<le> length r"
    by (meson length_dropWhile_le order_trans)
  with r2 s show ?thesis by simp
qed

text \<open>
  \<^verbatim>\<open>renderTemplate(template, vars)\<close>: the global replace scans from the left; a match is
  replaced by \<^verbatim>\<open>String(vars[key])\<close>, or by the empty string when \<^verbatim>\<open>vars\<close> has no such
  own property, and the scan goes on after the match.
\<close>

function renderTemplate :: "string \<Rightarrow> (string \<times> jsval) list \<Rightarrow> string" where
  "renderTemplate [] vars = []"
| "renderTemplate (c # cs) vars =
     (case match_placeholder (c # cs) of
        Some (key, rest) \<Rightarrow>
          (if props_has vars key then js_String (props_get vars key) else []) @ renderTemplate rest vars
      | None \<Rightarrow> c # renderTemplate cs vars)"
  by pat_completeness auto
termination
  by (relation "measure (\<lambda>(s, vars). length s)") (auto dest: match_placeholder_shorter)

section \<open>The model response normalizer (route.js)\<close>

definition disabledProposal :: jsval where
  "disabledProposal = JObj
     [(''enabled'', JNum 0),
      (''proposal_id'', JNull),
      (''problem_type'', JNull),
      (''translation'', JNull),
      (''fill_in_blank'', JNull),
      (''multiple_choice'', JNull),
      (''free_response'', JNull)]"

definition disabledPoll :: jsval where
  "disabledPoll = JObj
     [(''enabled'', JNum 0),
      (''poll_id'', JNull),
      (''question'', JNull),
      (''options'', JNull)]"

text \<open>
  \<^verbatim>\<open>normalizeModelOutput(parsed, { effectiveMode })\<close>. The source mutates \<^verbatim>\<open>out\<close> in
  place; each \<open>out\<^sub>i\<close> below is \<^verbatim>\<open>out\<close> after one statement.
\<close>

definition normalizeModelOutput :: "jsval \<Rightarrow> string \<Rightarrow> jsval" where
  "normalizeModelOutput parsed effectiveMode =
     (let out0 = (if truthy parsed \<and> typeof_object parsed then parsed else JObj []);
          out1 = (if \<not> truthy (get_prop out0 ''proposal'') \<or> \<not> typeof_object (get_prop out0 ''proposal'')
                  then set_prop out0 ''proposal'' disabledProposal else out0);
          out2 = (if \<not> truthy (get_prop out1 ''poll'') \<or> \<not> typeof_object (get_prop out1 ''poll'')
                  then set_prop out1 ''poll'' disabledPoll else out1);
          out3 = (if get_prop (get_prop out2 ''proposal'') ''enabled'' \<noteq> JNum 1
                  then set_prop out2 ''proposal'' disabledProposal else out2);
          out4 = (if get_prop (get_prop out3 ''poll'') ''enabled'' \<noteq> JNum 1
                  then set_prop out3 ''poll'' disabledPoll else out3);
          out5 = (if get_prop out4 ''clear_active'' \<noteq> JNum 1
                  then set_prop out4 ''clear_active'' (JNum 0) else out4)
      in if effectiveMode = ''help'' then set_prop out5 ''poll'' disabledPoll
         else
           (let pollEnabled = (get_prop (get_prop out5 ''poll'') ''enabled'' = JNum 1);
                proposalEnabled = (get_prop (get_prop out5 ''proposal'') ''enabled'' = JNum 1);
                clearActive = (get_prop out5 ''clear_active'' = JNum 1)
            in if pollEnabled \<and> clearActive then set_prop out5 ''poll'' disabledPoll
               else
                 (let out6 = (if pollEnabled \<and> proposalEnabled
                              then set_prop out5 ''proposal'' disabledProposal else out5);
                      out7 = (if pollEnabled then set_prop out6 ''clear_active'' (JNum 0) else out6)
                  in out7)))"

section \<open>Redaction of the answer keys (route.js)\<close>

text \<open>The elements of an array, for code that has checked \<^verbatim>\<open>Array.isArray\<close>.\<close>

fun elems :: "jsval \<Rightarrow> jsval list" where
  "elems (JArr xs ps) = xs"
| "elems v = []"

text \<open>
  The body of the loop over the blanks:
  \<^verbatim>\<open>if (blank && typeof blank === "object") delete blank.expected_answers\<close>.
\<close>

definition redact_blank :: "jsval \<Rightarrow> jsval" where
  "redact_blank blank =
     (if truthy blank \<and> typeof_object blank then delete_prop blank ''expected_answers'' else blank)"

text \<open>
  \<^verbatim>\<open>for (const blank of cloned.fill_in_blank.blanks)\<close>, entered when the blanks are
  truthy. An array is walked and its object elements lose their key; a string is iterable
  and its characters are left alone; any other truthy value is not iterable and the loop
  throws. The loop changes the blanks inside \<^verbatim>\<open>cloned\<close>; the model puts the changed
  array back at the same place.
\<close>

definition redact_blanks :: "jsval \<Rightarrow> js_error + jsval" where
  "redact_blanks cloned =
     (let fib = get_prop cloned ''fill_in_blank'' in
      case get_prop fib ''blanks'' of
        JArr xs ps \<Rightarrow>
          Inr (set_prop cloned ''fill_in_blank''
                 (set_prop fib ''blanks'' (JArr (map redact_blank xs) ps)))
      | JStr s \<Rightarrow> Inr cloned
      | _ \<Rightarrow> Inl TypeError)"

definition redactActiveForModel :: "jsval \<Rightarrow> js_error + jsval" where
  "redactActiveForModel active =
     (if \<not> truthy active \<or> \<not> typeof_object active then Inr JNull
      else
        (let cloned = json_clone active in
         case (if get_prop cloned ''problem_type'' = JStr ''fill_in_blank''
                  \<and> truthy (get_prop (get_prop cloned ''fill_in_blank'') ''blanks'')
               then redact_blanks cloned else Inr cloned) of
           Inl e \<Rightarrow> Inl e
         | Inr cloned1 \<Rightarrow>
             Inr (if get_prop cloned1 ''problem_type'' = JStr ''multiple_choice''
                     \<and> truthy (get_prop cloned1 ''multiple_choice'')
                  then set_prop cloned1 ''multiple_choice''
                         (delete_prop (get_prop cloned1 ''multiple_choice'') ''correct_option_ids'')
                  else cloned1)))"

section \<open>The chat route (route.js)\<close>

text \<open>
  What the handler reads from its surroundings: the two environment variables, and what
  \<^verbatim>\<open>getSchema()\<close> and \<^verbatim>\<open>getPrompts()\<close> return or throw (the two JSON files are not
  part of the handler).
\<close>

record env =
  OPENAI_API_KEY :: "string option"
  OPENAI_MODEL :: "string option"
  schema_json :: "js_error + jsval"
  prompts_json :: "js_error + jsval"

text \<open>The argument of \<^verbatim>\<open>client.responses.create\<close>.\<close>

record llm_request =
  req_model :: string
  req_input :: "jsval list"
  req_schema :: jsval

text \<open>\<^verbatim>\<open>Response.json(body, { status })\<close>: the status and the body as the client parses it.\<close>

datatype response = Response nat jsval

fun status_of :: "response \<Rightarrow> nat" where
  "status_of (Response st b) = st"

fun body_of :: "response \<Rightarrow> jsval" where
  "body_of (Response st b) = b"

definition error_response :: "nat \<Rightarrow> string \<Rightarrow> response" where
  "error_response st msg = Response st (JObj [(''error'', JStr msg)])"

text \<open>
  \<^verbatim>\<open>e.message\<close>. The engine words the message of its own errors; the model keeps their
  kind.
\<close>

fun message :: "js_error \<Rightarrow> string" where
  "message (Thrown m) = m"
| "message TypeError = ''TypeError''"
| "message SyntaxError = ''SyntaxError''"

definition buildSystemPrompt :: "jsval \<Rightarrow> jsval \<Rightarrow> js_error + string" where
  "buildSystemPrompt config prompts =
     (case get_prop prompts ''system_lines'' of
        JArr ls ps \<Rightarrow>
          Inr (join [CHR 0x0A]
                 (map (\<lambda>line. renderTemplate (js_String line)
                                [(''nativeLanguage'', get_prop config ''nativeLanguage''),
                                 (''targetLanguage'', get_prop config ''targetLanguage'')])
                      ls))
      | _ \<Rightarrow> Inl (Thrown ''prompts.json is missing system_lines[]''))"

text \<open>The inner loop of \<^verbatim>\<open>getOutputText\<close>; \<open>Some\<close> is its early return.\<close>

fun scan_content :: "jsval list \<Rightarrow> js_error + string option" where
  "scan_content [] = Inr None"
| "scan_content (c # cs) =
     (case get_strict c ''type'' of
        Inl e \<Rightarrow> Inl e
      | Inr t \<Rightarrow>
          if t = JStr ''output_text'' \<and> typeof_string (get_prop c ''text'')
          then Inr (Some (js_String (get_prop c ''text'')))
          else scan_content cs)"

fun scan_output :: "jsval list \<Rightarrow> js_error + string option" where
  "scan_output [] = Inr None"
| "scan_output (item # items) =
     (case get_strict item ''type'' of
        Inl e \<Rightarrow> Inl e
      | Inr t \<Rightarrow>
          if t = JStr ''message'' \<and> isArray (get_prop item ''content'')
          then (case scan_content (elems (get_prop item ''content'')) of
                  Inl e \<Rightarrow> Inl e
                | Inr (Some txt) \<Rightarrow> Inr (Some txt)
                | Inr None \<Rightarrow> scan_output items)
          else scan_output items)"

definition getOutputText :: "jsval \<Rightarrow> js_error + string" where
  "getOutputText resp =
     (case get_strict resp ''output_text'' of
        Inl e \<Rightarrow> Inl e
      | Inr ot \<Rightarrow>
          if typeof_string ot \<and> trim (js_String ot) \<noteq> [] then Inr (js_String ot)
          else if isArray (get_prop resp ''output'')
          then (case scan_output (elems (get_prop resp ''output'')) of
                  Inl e \<Rightarrow> Inl e
                | Inr (Some txt) \<Rightarrow> Inr txt
                | Inr None \<Rightarrow> Inr [])
          else Inr [])"

text \<open>The history the route forwards: objects only, cut down to role and content.\<close>

definition request_messages :: "jsval \<Rightarrow> jsval list" where
  "request_messages body =
     (let rawMessages = (if isArray (get_prop body ''messages'')
                         then elems (get_prop body ''messages'') else [])
      in filter (\<lambda>m. (get_prop m ''role'' = JStr ''user'' \<or> get_prop m ''role'' = JStr ''assistant'')
                      \<and> typeof_string (get_prop m ''content''))
           (map (\<lambda>m. JObj [(''role'', get_prop m ''role''), (''content'', get_prop m ''content'')])
              (filter (\<lambda>m. truthy m \<and> typeof_object m) rawMessages)))"

definition request_mode :: "jsval \<Rightarrow> string" where
  "request_mode body =
     (let requestedMode = get_prop body ''mode''
      in if requestedMode = JStr ''help'' then ''help''
         else if requestedMode = JStr ''post_clear'' then ''post_clear''
         else ''chat'')"

definition request_active :: "jsval \<Rightarrow> jsval" where
  "request_active body =
     (if truthy (get_prop body ''active'') \<and> typeof_object (get_prop body ''active'')
      then get_prop body ''active'' else JNull)"

definition request_userText :: "jsval \<Rightarrow> string" where
  "request_userText body =
     (if typeof_string (get_prop body ''userText'') then js_String (get_prop body ''userText'') else [])"

definition effective_mode :: "jsval \<Rightarrow> string" where
  "effective_mode body =
     (let mode = request_mode body; active = request_active body
      in if mode \<noteq> ''post_clear'' \<and> truthy active \<and> get_prop active ''enabled'' = JNum 1
            \<and> truthy (get_prop active ''problem_type'')
         then ''help'' else mode)"

definition llm_input :: "string \<Rightarrow> jsval list \<Rightarrow> string \<Rightarrow> jsval list" where
  "llm_input systemPrompt messages userContent =
     JObj [(''role'', JStr ''system''), (''content'', JStr systemPrompt)]
       # messages @ [JObj [(''role'', JStr ''user''), (''content'', JStr userContent)]]"

text \<open>
  \<^verbatim>\<open>POST\<close> up to the call of the model: the handler throws (and its \<^verbatim>\<open>catch\<close> answers
  500), returns a response of its own, or reaches \<^verbatim>\<open>client.responses.create\<close> with a
  request and the effective mode.
\<close>

datatype prepared = Reject response | Call llm_request string

definition request_config :: "jsval \<Rightarrow> jsval" where
  "request_config body = JObj
     [(''nativeLanguage'',
         if typeof_string (get_prop (get_prop body ''config'') ''nativeLanguage'')
         then get_prop (get_prop body ''config'') ''nativeLanguage'' else JStr ''English''),
      (''targetLanguage'',
         if typeof_string (get_prop (get_prop body ''config'') ''targetLanguage'')
         then get_prop (get_prop body ''config'') ''targetLanguage'' else JStr ''Spanish'')]"

text \<open>
  The branch on the effective mode that builds \<^verbatim>\<open>userContent\<close>: it throws, returns a
  response of its own, or yields the user content.
\<close>

definition user_content :: "jsval \<Rightarrow> jsval \<Rightarrow> js_error + (response + string)" where
  "user_content prompts body =
     (let active = request_active body;
          attempt = nullish (get_prop body ''attempt'') JNull;
          cleared = nullish (get_prop body ''cleared'') JNull;
          clearedOutcome = nullish (get_prop body ''clearedOutcome'') JNull;
          userText = request_userText body;
          hasUserText = (trim userText \<noteq> []);
          effectiveMode = effective_mode body
      in if effectiveMode = ''post_clear'' then
           (let template = js_String (nullish (get_prop prompts ''post_clear_user_message'') (JStr []))
            in if template = []
               then Inr (Inl (error_response 500 ''prompts.json is missing post_clear_user_message''))
               else Inr (Inr (renderTemplate template
                      [(''clearedJson'', JStr (JSON_stringify cleared)),
                       (''clearedOutcomeJson'', JStr (JSON_stringify clearedOutcome))])))
         else if effectiveMode = ''help'' then
           (if \<not> truthy active \<or> get_prop active ''enabled'' \<noteq> JNum 1
                 \<or> \<not> truthy (get_prop active ''problem_type'')
            then Inr (Inl (error_response 400 ''No active exercise to help with.''))
            else if \<not> hasUserText
            then Inr (Inl (error_response 400 ''Missing userText''))
            else (case redactActiveForModel active of
                    Inl e \<Rightarrow> Inl e
                  | Inr redactedActive \<Rightarrow>
                      Inr (Inr (renderTemplate
                         (js_String (nullish (get_prop prompts ''help_user_message_with_active'')
                            (nullish (get_prop prompts ''help_user_message'') (JStr []))))
                         [(''userText'', JStr userText),
                          (''activeContextJson'', JStr (JSON_stringify redactedActive)),
                          (''attemptJson'', JStr (JSON_stringify attempt)),
                          (''helpContextJson'',
                             JStr (JSON_stringify (JObj [(''problem'', redactedActive)])))]))))
         else if \<not> hasUserText
         then Inr (Inl (error_response 400 ''Missing userText''))
         else Inr (Inr userText))"

definition POST_prepare :: "env \<Rightarrow> js_error + jsval \<Rightarrow> js_error + prepared" where
  "POST_prepare ev req_json =
     (if OPENAI_API_KEY ev = None \<or> OPENAI_API_KEY ev = Some []
      then Inr (Reject (error_response 500 ''Missing OPENAI_API_KEY''))
      else
        (let model = (case OPENAI_MODEL ev of
                        None \<Rightarrow> ''gpt-5.2''
                      | Some m \<Rightarrow> if m = [] then ''gpt-5.2'' else m)
         in case req_json of
              Inl e \<Rightarrow> Inl e
            | Inr body \<Rightarrow>
                (case schema_json ev of
                   Inl e \<Rightarrow> Inl e
                 | Inr schema \<Rightarrow>
                     (case prompts_json ev of
                        Inl e \<Rightarrow> Inl e
                      | Inr prompts \<Rightarrow>
                          (case buildSystemPrompt (request_config body) prompts of
                             Inl e \<Rightarrow> Inl e
                           | Inr systemPrompt \<Rightarrow>
                               (case user_content prompts body of
                                  Inl e \<Rightarrow> Inl e
                                | Inr (Inl r) \<Rightarrow> Inr (Reject r)
                                | Inr (Inr userContent) \<Rightarrow>
                                    Inr (Call
                                      \<lparr>req_model = model,
                                       req_input = llm_input systemPrompt (request_messages body)
                                                     userContent,
                                       req_schema = schema\<rparr>
                                      (effective_mode body))))))))"

text \<open>
  \<^verbatim>\<open>POST\<close> after the model has answered or thrown. \<^verbatim>\<open>JSON.parse\<close> is a parameter.
\<close>

definition POST_finish ::
  "js_error + jsval \<Rightarrow> (string \<Rightarrow> js_error + jsval) \<Rightarrow> string \<Rightarrow> js_error + response" where
  "POST_finish llm_result JSON_parse effectiveMode =
     (case llm_result of
        Inl e \<Rightarrow> Inl e
      | Inr resp \<Rightarrow>
          (case get_strict resp ''status'' of
             Inl e \<Rightarrow> Inl e
           | Inr st \<Rightarrow>
               if st = JStr ''incomplete''
               then Inr (error_response 500
                      (''Incomplete model response: '' @
                         js_String (nullish (get_prop (get_prop resp ''incomplete_details'') ''reason'')
                                      (JStr ''unknown''))))
               else (case getOutputText resp of
                       Inl e \<Rightarrow> Inl e
                     | Inr raw \<Rightarrow>
                         if raw = []
                         then Inr (error_response 500 ''No output_text returned by model'')
                         else (case JSON_parse raw of
                                 Inl e \<Rightarrow> Inl e
                               | Inr parsed \<Rightarrow>
                                   Inr (Response 200
                                          (json_clone (normalizeModelOutput parsed effectiveMode)))))))"

text \<open>
  The whole handler: the response, and the requests it sent to the model, in order. The
  model is a function from the request to what \<^verbatim>\<open>client.responses.create\<close> returns or
  throws.
\<close>

definition POST ::
  "env \<Rightarrow> js_error + jsval \<Rightarrow> (llm_request \<Rightarrow> js_error + jsval) \<Rightarrow> (string \<Rightarrow> js_error + jsval)
     \<Rightarrow> response \<times> llm_request list" where
  "POST ev req_json llm JSON_parse =
     (case POST_prepare ev req_json of
        Inl e \<Rightarrow> (error_response 500 (message e), [])
      | Inr (Reject r) \<Rightarrow> (r, [])
      | Inr (Call rq effectiveMode) \<Rightarrow>
          (case POST_finish (llm rq) JSON_parse effectiveMode of
             Inl e \<Rightarrow> (error_response 500 (message e), [rq])
           | Inr r \<Rightarrow> (r, [rq])))"

section \<open>Exercises and the objective grader (page.js)\<close>


text \<open>
  \<^verbatim>\<open>v?.[key]\<close> with a computed key, as the grader reads the attempt: an own property of
  an object; an element or the length of an array or of a string; \<^verbatim>\<open>undefined\<close> on
  \<^verbatim>\<open>null\<close>, on \<^verbatim>\<open>undefined\<close> and where there is no such own property (names inherited
  from a prototype, such as \<^verbatim>\<open>constructor\<close>, are outside the model).
\<close>

definition index_of_key :: "string \<Rightarrow> nat \<Rightarrow> nat option" where
  "index_of_key k n = find (\<lambda>i. dec_nat i = k) [0..<n]"

fun get_elem :: "jsval \<Rightarrow> string \<Rightarrow> jsval" where
  "get_elem (JObj ps) k = props_get ps k"
| "get_elem (JArr xs ps) k =
     (case index_of_key k (length xs) of
        Some i \<Rightarrow> xs ! i
      | None \<Rightarrow> if k = ''length'' then JNum (int (length xs)) else props_get ps k)"
| "get_elem (JStr s) k =
     (case index_of_key k (length s) of
        Some i \<Rightarrow> JStr [s ! i]
      | None \<Rightarrow> if k = ''length'' then JNum (int (length s)) else JUndefined)"
| "get_elem v k = JUndefined"

definition normalizeText :: "jsval \<Rightarrow> string" where
  "normalizeText s = toLowerCase (trim (js_String (nullish s (JStr []))))"

text \<open>
  The loop over the blanks of \<^verbatim>\<open>gradeObjective\<close>: the pushed results and
  \<^verbatim>\<open>allCorrect\<close>. Reading \<^verbatim>\<open>b.id\<close> throws when the blank is \<^verbatim>\<open>null\<close> or
  \<^verbatim>\<open>undefined\<close>.
\<close>

definition blank_ok :: "jsval \<Rightarrow> jsval \<Rightarrow> bool" where
  "blank_ok b nextAttempt =
     (let userVal = normalizeText (nullish (get_elem nextAttempt (js_String (get_prop b ''id''))) (JStr []));
          expected = (if isArray (get_prop b ''expected_answers'')
                      then elems (get_prop b ''expected_answers'') else [])
      in userVal \<in> set (map normalizeText expected))"

fun grade_blanks :: "jsval list \<Rightarrow> jsval \<Rightarrow> js_error + (jsval list \<times> bool)" where
  "grade_blanks [] nextAttempt = Inr ([], True)"
| "grade_blanks (b # bs) nextAttempt =
     (case get_strict b ''id'' of
        Inl e \<Rightarrow> Inl e
      | Inr bid \<Rightarrow>
          (let ok = blank_ok b nextAttempt
           in case grade_blanks bs nextAttempt of
                Inl e \<Rightarrow> Inl e
              | Inr (results, allCorrect) \<Rightarrow>
                  Inr (JObj [(''id'', bid), (''correct'', JBool ok)] # results, ok \<and> allCorrect)))"

text \<open>
  What \<^verbatim>\<open>for (const b of blanks)\<close> walks: the elements of an array, the characters of a
  string; any other value is not iterable.
\<close>

fun iterate :: "jsval \<Rightarrow> js_error + jsval list" where
  "iterate (JArr xs ps) = Inr xs"
| "iterate (JStr s) = Inr (map (\<lambda>c. JStr [c]) s)"
| "iterate v = Inl TypeError"

text \<open>\<^verbatim>\<open>[...new Set(xs)]\<close>: the first occurrence of each element, in order.\<close>

definition dedup :: "string list \<Rightarrow> string list" where
  "dedup xs = rev (remdups (rev xs))"

definition setEq :: "string list \<Rightarrow> string list \<Rightarrow> bool" where
  "setEq a b = (if length a \<noteq> length b then False else list_all (\<lambda>x. x \<in> set a) b)"

definition selected_ids :: "jsval \<Rightarrow> string list" where
  "selected_ids nextAttempt =
     (if isArray nextAttempt then map js_String (elems nextAttempt) else [])"

definition correct_ids :: "jsval \<Rightarrow> string list" where
  "correct_ids nextActive =
     (if isArray (get_prop (get_prop nextActive ''multiple_choice'') ''correct_option_ids'')
      then map js_String (elems (get_prop (get_prop nextActive ''multiple_choice'') ''correct_option_ids''))
      else [])"

text \<open>
  \<^verbatim>\<open>gradeObjective(nextActive, nextAttempt)\<close>. The default \<^verbatim>\<open>sort()\<close> orders strings by
  their code units, which is the lexicographic order of the character lists.
\<close>

definition gradeObjective :: "jsval \<Rightarrow> jsval \<Rightarrow> js_error + jsval" where
  "gradeObjective nextActive nextAttempt =
     (if \<not> truthy nextActive \<or> get_prop nextActive ''enabled'' \<noteq> JNum 1
           \<or> \<not> truthy (get_prop nextActive ''problem_type'')
      then Inr JNull
      else if get_prop nextActive ''problem_type'' = JStr ''fill_in_blank''
              \<and> truthy (get_prop (get_prop nextActive ''fill_in_blank'') ''blanks'')
      then (case iterate (get_prop (get_prop nextActive ''fill_in_blank'') ''blanks'') of
              Inl e \<Rightarrow> Inl e
            | Inr blanks \<Rightarrow>
                (case grade_blanks blanks nextAttempt of
                   Inl e \<Rightarrow> Inl e
                 | Inr (results, allCorrect) \<Rightarrow>
                     Inr (JObj [(''kind'', JStr ''fill_in_blank''),
                                (''allCorrect'', JBool allCorrect),
                                (''results'', JArr results [])])))
      else if get_prop nextActive ''problem_type'' = JStr ''multiple_choice''
              \<and> truthy (get_prop nextActive ''multiple_choice'')
      then (let selected = selected_ids nextAttempt;
                correct = correct_ids nextActive;
                allCorrect = setEq (sort (dedup selected)) (sort (dedup correct))
            in Inr (JObj [(''kind'', JStr ''multiple_choice''), (''allCorrect'', JBool allCorrect)]))
      else Inr JNull)"

section \<open>The coarse level of the placement request (page.js)\<close>

definition cefr_codes :: "string list" where
  "cefr_codes = [''a1'', ''a2'', ''b1'', ''b2'', ''c1'', ''c2'']"

text \<open>
  \<^verbatim>\<open>(a1|a2|b1|b2|c1|c2)\b\<close> at the head of the text, under the flag \<^verbatim>\<open>i\<close>: two
  characters that are a code in either case, followed by the end of the text or by a
  character that is not a word character.
\<close>

definition code_here :: "string \<Rightarrow> bool" where
  "code_here s =
     (case s of
        c1 # c2 # r \<Rightarrow>
          toLowerCase [c1, c2] \<in> set cefr_codes
            \<and> (case r of [] \<Rightarrow> True | d # r' \<Rightarrow> \<not> word_char d)
      | _ \<Rightarrow> False)"

text \<open>
  The leftmost match of \<^verbatim>\<open>/\b(a1|a2|b1|b2|c1|c2)\b/i\<close>. A code starts with a word
  character, so the leading \<^verbatim>\<open>\b\<close> asks that the character before it, if any, is not
  one; the flag says whether the character before the head is a word character.
\<close>

fun match_level :: "bool \<Rightarrow> string \<Rightarrow> string option" where
  "match_level prev_word [] = None"
| "match_level prev_word (c # cs) =
     (if \<not> prev_word \<and> code_here (c # cs) then Some (take 2 (c # cs))
      else match_level (word_char c) cs)"

definition inferApproxLevel :: "jsval \<Rightarrow> string" where
  "inferApproxLevel levelText =
     (let t = toLowerCase (js_String (nullish levelText (JStr [])))
      in case match_level False t of
           Some m \<Rightarrow> toUpperCase m
         | None \<Rightarrow>
             if js_includes t ''beginner'' then ''A1''
             else if js_includes t ''intermediate'' then ''B1''
             else if js_includes t ''advanced'' then ''C1''
             else ''B1'')"

section \<open>The conversation controller (page.js)\<close>

text \<open>
  The state of the page component: one field per \<^verbatim>\<open>useState\<close>. A handler reads the
  fields as they were when it started (the closure of the render) and queues updates; the
  model passes the state along and keeps the starting state where the source reads the
  closure. Handlers run one at a time: \<^verbatim>\<open>loading\<close> guards the user's actions.
\<close>

record session =
  nativeLanguage :: string
  targetLanguage :: string
  messages :: "jsval list"
  conversationMode :: string
  onboardingStep :: int
  levelText :: string
  focusText :: string
  active :: jsval
  attempt :: jsval
  pendingProposal :: jsval
  grade :: jsval
  inputText :: string
  error :: string
  loading :: bool

text \<open>The argument of \<^verbatim>\<open>callApi\<close>; a field the caller leaves out is \<^verbatim>\<open>undefined\<close>.\<close>

record api_args =
  arg_mode :: string
  arg_userText :: string
  arg_messagesOverride :: "jsval list option"
  arg_cleared :: jsval
  arg_clearedOutcome :: jsval

text \<open>
  The body \<^verbatim>\<open>callApi\<close> posts, as the server parses it: \<^verbatim>\<open>JSON.stringify\<close> leaves out
  the fields that are \<^verbatim>\<open>undefined\<close>. The exercise, the attempt and the default history
  are those of the closure.
\<close>

definition request_body :: "session \<Rightarrow> api_args \<Rightarrow> jsval" where
  "request_body c a = json_clone (JObj
     [(''mode'', JStr (arg_mode a)),
      (''userText'', JStr (arg_userText a)),
      (''messages'', JArr (case arg_messagesOverride a of Some ms \<Rightarrow> ms | None \<Rightarrow> messages c) []),
      (''config'', JObj [(''nativeLanguage'', JStr (nativeLanguage c)),
                         (''targetLanguage'', JStr (targetLanguage c))]),
      (''active'', active c),
      (''attempt'', attempt c),
      (''cleared'', arg_cleared a),
      (''clearedOutcome'', arg_clearedOutcome a)])"

text \<open>
  \<^verbatim>\<open>callApi\<close>. The server is a function from the posted body to what \<^verbatim>\<open>fetch\<close> gives:
  a thrown error or a response; a response that is not ok is thrown as an error with the
  server's message.
\<close>

definition callApi :: "(jsval \<Rightarrow> js_error + response) \<Rightarrow> session \<Rightarrow> api_args \<Rightarrow> js_error + jsval" where
  "callApi server c a =
     (case server (request_body c a) of
        Inl e \<Rightarrow> Inl e
      | Inr resp \<Rightarrow>
          if 200 \<le> status_of resp \<and> status_of resp \<le> 299 then Inr (body_of resp)
          else Inl (Thrown
                 (if typeof_string (get_prop (body_of resp) ''error'')
                  then js_String (get_prop (body_of resp) ''error'')
                  else ''Request failed ('' @ dec_nat (status_of resp) @ '')'')))"

text \<open>The assistant message built from a result, and the two updates every caller makes.\<close>

definition assistant_message :: "jsval \<Rightarrow> jsval" where
  "assistant_message result =
     (let msg = JObj [(''role'', JStr ''assistant''),
                      (''content'', get_prop result ''response''),
                      (''flags'', get_prop result ''flags'')];
          msg1 = (if get_prop (get_prop result ''proposal'') ''enabled'' = JNum 1
                  then set_prop msg ''proposal'' (get_prop result ''proposal'') else msg);
          msg2 = (if get_prop (get_prop result ''poll'') ''enabled'' = JNum 1
                  then set_prop msg1 ''poll'' (get_prop result ''poll'') else msg1)
      in msg2)"

definition append_response :: "session \<Rightarrow> jsval \<Rightarrow> session" where
  "append_response s result =
     (if typeof_string (get_prop result ''response'')
      then s\<lparr>messages := messages s @ [assistant_message result]\<rparr> else s)"

definition take_proposal :: "session \<Rightarrow> jsval \<Rightarrow> session" where
  "take_proposal s result =
     (if get_prop (get_prop result ''proposal'') ''enabled'' = JNum 1
      then s\<lparr>pendingProposal := get_prop result ''proposal''\<rparr> else s)"

text \<open>The \<^verbatim>\<open>catch\<close> block every caller has.\<close>

definition report_error :: "session \<Rightarrow> js_error \<Rightarrow> session" where
  "report_error s e =
     s\<lparr>error := message e,
       messages := messages s @ [JObj [(''role'', JStr ''assistant''),
                                       (''content'', JStr (''Error: '' @ message e))]]\<rparr>"

text \<open>
  \<^verbatim>\<open>triggerPostClear\<close>, with the closure \<open>c\<close> and the current state \<open>s\<close>: the new state
  and the bodies it posted.
\<close>

definition triggerPostClear ::
  "(jsval \<Rightarrow> js_error + response) \<Rightarrow> session \<Rightarrow> session \<Rightarrow> jsval \<Rightarrow> jsval \<Rightarrow> jsval list option
     \<Rightarrow> session \<times> jsval list" where
  "triggerPostClear server c s cleared clearedOutcome messagesOverride =
     (let s1 = s\<lparr>error := [], loading := True\<rparr>;
          args = \<lparr>arg_mode = ''post_clear'', arg_userText = ''post_clear'',
                  arg_messagesOverride = messagesOverride,
                  arg_cleared = cleared, arg_clearedOutcome = clearedOutcome\<rparr>;
          s2 = (case callApi server c args of
                  Inr result \<Rightarrow> take_proposal (append_response s1 result) result
                | Inl e \<Rightarrow> report_error s1 e)
      in (s2\<lparr>loading := False\<rparr>, [request_body c args]))"

definition onClearActive :: "(jsval \<Rightarrow> js_error + response) \<Rightarrow> session \<Rightarrow> session \<times> jsval list" where
  "onClearActive server s =
     (if loading s then (s, [])
      else if \<not> truthy (active s) \<or> get_prop (active s) ''enabled'' \<noteq> JNum 1 then (s, [])
      else triggerPostClear server s (s\<lparr>active := JNull, attempt := JNull, grade := JNull\<rparr>)
             (active s) (JObj [(''kind'', JStr ''user_cleared'')]) None)"

text \<open>
  \<^verbatim>\<open>a === b\<close> where the code compares two identifiers: equal primitives are equal; an
  object or an array is equal only to itself, which the model does not track.
\<close>

definition strict_eq :: "jsval \<Rightarrow> jsval \<Rightarrow> bool" where
  "strict_eq a b = (a = b \<and> \<not> isArray a \<and> (case a of JObj ps \<Rightarrow> False | _ \<Rightarrow> True))"

text \<open>The help offer after a submission that is not fully correct.\<close>

definition offer_help :: "session \<Rightarrow> session" where
  "offer_help s =
     (let prev = messages s;
          lastm = (if prev = [] then JUndefined else last prev)
      in if get_prop (get_prop lastm ''help_offer'') ''enabled'' = JNum 1
            \<and> strict_eq (get_prop (get_prop lastm ''help_offer'') ''exercise_id'')
                 (get_prop (active s) ''exercise_id'')
         then s
         else s\<lparr>messages := prev @
                [JObj [(''role'', JStr ''assistant''),
                       (''content'', JStr (''It looks like that answer isn'' @ [CHR 0x27]
                                            @ ''t fully correct. Want help?'')),
                       (''help_offer'', JObj [(''enabled'', JNum 1),
                          (''exercise_id'', nullish (get_prop (active s) ''exercise_id'') JNull)])]]\<rparr>)"

text \<open>
  \<^verbatim>\<open>onSubmitObjective\<close>. An exception of the grader leaves the handler; nothing has been
  set by then.
\<close>

definition onSubmitObjective ::
  "(jsval \<Rightarrow> js_error + response) \<Rightarrow> session \<Rightarrow> js_error + session \<times> jsval list" where
  "onSubmitObjective server s =
     (if \<not> truthy (active s) \<or> get_prop (active s) ''enabled'' \<noteq> JNum 1 then Inr (s, [])
      else case gradeObjective (active s) (attempt s) of
             Inl e \<Rightarrow> Inl e
           | Inr g \<Rightarrow>
               if \<not> truthy g then Inr (s, [])
               else
                 (let s1 = s\<lparr>grade := g\<rparr>
                  in if truthy (get_prop g ''allCorrect'')
                     then Inr (triggerPostClear server s (s1\<lparr>active := JNull, attempt := JNull\<rparr>)
                                 (active s) (JObj [(''kind'', JStr ''objective_correct'')]) None)
                     else Inr (offer_help s1, [])))"

definition placementRequest :: "string \<Rightarrow> string \<Rightarrow> string \<Rightarrow> string" where
  "placementRequest reportedLevel approxLevel cleaned = join [CHR 0x0A]
     [''We are starting a new conversation and need a placement exercise.'',
      ''User self-reported level: '' @ reportedLevel,
      ''Approx level (coarse): '' @ approxLevel,
      ''User focus: '' @ cleaned,
      ''Task: Propose exactly one placement exercise as proposal.enabled=1 with proposal.problem_type=free_response.'',
      ''Do not propose any other exercise types.'',
      ''In response, briefly acknowledge the info and instruct the user to click Start exercise.'']"

text \<open>
  The part of \<^verbatim>\<open>sendText\<close> and of \<^verbatim>\<open>onSubmitExercise\<close> after the call has returned a
  result, with the active exercise of the closure: the response is appended; a model-issued
  clear of an enabled exercise nulls the three fields and chains the post-clear call; the
  proposal, if enabled, becomes pending. (\<^verbatim>\<open>result.response\<close> is read where
  \<^verbatim>\<open>result.clear_active\<close> is 1, so on an object.)
\<close>

definition after_result ::
  "(jsval \<Rightarrow> js_error + response) \<Rightarrow> session \<Rightarrow> session \<Rightarrow> jsval list \<Rightarrow> jsval
     \<Rightarrow> session \<times> jsval list" where
  "after_result server c s history result =
     (let s1 = append_response s result
      in if get_prop result ''clear_active'' = JNum 1 \<and> truthy (active c)
            \<and> get_prop (active c) ''enabled'' = JNum 1
         then (let cleared = triggerPostClear server c
                           (s1\<lparr>active := JNull, attempt := JNull, grade := JNull\<rparr>)
                           (active c) (JObj [(''kind'', JStr ''model_clear'')])
                           (Some (history @ [JObj [(''role'', JStr ''assistant''),
                                                   (''content'', get_prop result ''response'')]]))
               in (take_proposal (fst cleared) result, snd cleared))
         else (take_proposal s1 result, []))"

definition sendText ::
  "(jsval \<Rightarrow> js_error + response) \<Rightarrow> session \<Rightarrow> string \<Rightarrow> session \<times> jsval list" where
  "sendText server s text =
     (let cleaned = trim text
      in if cleaned = [] \<or> loading s then (s, [])
         else
           (let nextMessages = messages s @ [JObj [(''role'', JStr ''user''), (''content'', JStr cleaned)]];
                s1 = s\<lparr>error := [], messages := nextMessages\<rparr>
            in if conversationMode s = ''onboarding'' \<and> onboardingStep s = 0 then
                 (s1\<lparr>levelText := cleaned,
                     messages := nextMessages @
                       [JObj [(''role'', JStr ''assistant''),
                              (''content'', JStr ''2) What do you want to focus on right now? (speaking, writing, grammar, vocab, travel, work, etc.)'')]],
                     onboardingStep := 1\<rparr>, [])
               else if conversationMode s = ''onboarding'' \<and> onboardingStep s = 1 then
                 (let reportedLevel = levelText s;
                      approxLevel = inferApproxLevel (JStr reportedLevel);
                      s2 = s1\<lparr>focusText := cleaned, loading := True\<rparr>;
                      args = \<lparr>arg_mode = ''chat'',
                              arg_userText = placementRequest reportedLevel approxLevel cleaned,
                              arg_messagesOverride = Some nextMessages,
                              arg_cleared = JUndefined, arg_clearedOutcome = JUndefined\<rparr>;
                      s3 = (case callApi server s args of
                              Inl e \<Rightarrow> report_error s2 e
                            | Inr result \<Rightarrow>
                                (let s4 = take_proposal
                                            (append_response
                                               (s2\<lparr>conversationMode := ''chat'', onboardingStep := 2\<rparr>)
                                               result) result
                                 in if get_prop result ''clear_active'' = JNum 1
                                    then s4\<lparr>active := JNull, attempt := JNull, grade := JNull\<rparr>
                                    else s4))
                  in (s3\<lparr>loading := False\<rparr>, [request_body s args]))
               else
                 (let requestMode = (if truthy (active s) \<and> get_prop (active s) ''enabled'' = JNum 1
                                        \<and> truthy (get_prop (active s) ''problem_type'')
                                     then ''help'' else ''chat'');
                      s2 = s1\<lparr>loading := True\<rparr>;
                      args = \<lparr>arg_mode = requestMode, arg_userText = cleaned,
                              arg_messagesOverride = Some nextMessages,
                              arg_cleared = JUndefined, arg_clearedOutcome = JUndefined\<rparr>
                  in case callApi server s args of
                       Inl e \<Rightarrow> ((report_error s2 e)\<lparr>loading := False\<rparr>, [request_body s args])
                     | Inr result \<Rightarrow>
                         (let done = after_result server s s2 nextMessages result
                          in ((fst done)\<lparr>loading := False\<rparr>, request_body s args # snd done)))))"

definition onSubmitExercise ::
  "(jsval \<Rightarrow> js_error + response) \<Rightarrow> session \<Rightarrow> js_error + session \<times> jsval list" where
  "onSubmitExercise server s =
     (if \<not> truthy (active s) \<or> get_prop (active s) ''enabled'' \<noteq> JNum 1 \<or> loading s
      then Inr (s, [])
      else if get_prop (active s) ''problem_type'' = JStr ''fill_in_blank''
              \<or> get_prop (active s) ''problem_type'' = JStr ''multiple_choice''
      then onSubmitObjective server s
      else
        (let s1 = s\<lparr>error := [], loading := True\<rparr>;
             args = \<lparr>arg_mode = ''help'',
                     arg_userText = ''Please review my attempt and help me improve.'',
                     arg_messagesOverride = Some (messages s),
                     arg_cleared = JUndefined, arg_clearedOutcome = JUndefined\<rparr>
         in case callApi server s args of
              Inl e \<Rightarrow> Inr ((report_error s1 e)\<lparr>loading := False\<rparr>, [request_body s args])
            | Inr result \<Rightarrow>
                (let done = after_result server s s1 (messages s) result
                 in Inr ((fst done)\<lparr>loading := False\<rparr>, request_body s args # snd done))))"

text \<open>The bodies among the posted ones that ask for the post-clear turn.\<close>

definition post_clear_calls :: "jsval list \<Rightarrow> jsval list" where
  "post_clear_calls calls = filter (\<lambda>b. get_prop b ''mode'' = JStr ''post_clear'') calls"

section \<open>Observations and sample data\<close>



text \<open>
  A prompt bundle with the keys the route reads, an environment with an API key, and a
  model that answers every request with the empty object.
\<close>

definition demo_prompts :: jsval where
  "demo_prompts = JObj
     [(''system_lines'',
         JArr [JStr ''You are a {{targetLanguage}} coach for a speaker of {{nativeLanguage}}.''] []),
      (''help_user_message_with_active'',
         JStr ''Exercise: {{activeContextJson}} Attempt: {{attemptJson}} User: {{userText}}''),
      (''post_clear_user_message'',
         JStr ''Cleared: {{clearedJson}} Outcome: {{clearedOutcomeJson}}'')]"

definition demo_env :: env where
  "demo_env = \<lparr>OPENAI_API_KEY = Some ''sk-test'', OPENAI_MODEL = None,
               schema_json = Inr (JObj []), prompts_json = Inr demo_prompts\<rparr>"

definition demo_llm :: "llm_request \<Rightarrow> js_error + jsval" where
  "demo_llm rq = Inr (JObj [(''status'', JStr ''completed''), (''output_text'', JStr ''{}'')])"

definition demo_parse :: "string \<Rightarrow> js_error + jsval" where
  "demo_parse raw = (if raw = ''{}'' then Inr (JObj []) else Inl SyntaxError)"



definition demo_blanks :: jsval where
  "demo_blanks = JObj
     [(''enabled'', JNum 1),
      (''exercise_id'', JStr ''e2''),
      (''problem_type'', JStr ''fill_in_blank''),
      (''translation'', JNull),
      (''fill_in_blank'', JObj
         [(''prompt'', JStr ''Complete the sentence.''),
          (''blanks'', JArr [JObj [(''id'', JStr ''b1''),
                                   (''text_with_placeholder'', JStr ''Yo ____ estudiante.''),
                                   (''expected_answers'', JArr [JStr ''soy''] [])]] [])]),
      (''multiple_choice'', JNull),
      (''free_response'', JNull)]"



text \<open>
  A session with the fill-in-blank exercise of the specification's scenario active and the
  attempt that answers it, and a server that answers every call with a plain reply.
\<close>

definition demo_session :: session where
  "demo_session =
     \<lparr>nativeLanguage = ''English'', targetLanguage = ''Spanish'',
      messages = [JObj [(''role'', JStr ''assistant''), (''content'', JStr ''Fill in the blank.'')]],
      conversationMode = ''chat'', onboardingStep = 2,
      levelText = ''intermediate'', focusText = ''travel vocabulary'',
      active = demo_blanks,
      attempt = JObj [(''b1'', JStr ''Soy'')],
      pendingProposal = JNull, grade = JNull,
      inputText = [], error = [], loading = False\<rparr>"

definition demo_server :: "jsval \<Rightarrow> js_error + response" where
  "demo_server body = Inr (Response 200 (JObj
     [(''response'', JStr ''Well done.''),
      (''flags'', JObj [(''is_help'', JBool False), (''is_post_clear'', JBool True)]),
      (''clear_active'', JNum 0),
      (''proposal'', disabledProposal),
      (''poll'', disabledPoll)]))"



section \<open>The claims in the specification's words\<close>






text \<open>
  The words of the claims about text, by code points and without the functions of the
  program. White space is the characters U+0009 to U+000D, the space and the no-break
  space. Lower-casing moves the letters A to Z and U+00C0 to U+00DE (the multiplication
  sign U+00D7 apart) 32 code points up, to their lower-case letters, and leaves every other
  character. A word character is a digit, an ASCII letter or the underscore.
\<close>

definition spec_whitespace :: "char \<Rightarrow> bool" where
  "spec_whitespace c = ((of_char c :: nat) \<in> {9, 10, 11, 12, 13, 32, 160})"













section \<open>Properties of the text functions\<close>


lemma js_space_table: "\<forall>c. js_space c = spec_whitespace c"
  by code_simp




lemma js_space_spec: "js_space c = spec_whitespace c"
  using js_space_table by blast







lemma trim_empty: "trim s = [] \<longleftrightarrow> (\<forall>c \<in> set s. spec_whitespace c)"
proof -
  have "trim s = [] \<longleftrightarrow> (\<forall>c \<in> set (dropWhile js_space s). js_space c)"
    by (simp add: trim_def dropWhile_eq_Nil_conv)
  also have "\<dots> \<longleftrightarrow> dropWhile js_space s = []"
  proof
    assume a: "\<forall>c \<in> set (dropWhile js_space s). js_space c"
    show "dropWhile js_space s = []"
    proof (rule ccontr)
      assume n: "dropWhile js_space s \<noteq> []"
      then have "\<not> js_space (hd (dropWhile js_space s))"
        by (rule hd_dropWhile)
      moreover from n have "hd (dropWhile js_space s) \<in> set (dropWhile js_space s)"
        by simp
      ultimately show False using a by blast
    qed
  next
    assume "dropWhile js_space s = []"
    then show "\<forall>c \<in> set (dropWhile js_space s). js_space c" by (auto dest: set_dropWhileD)
  qed
  also have "\<dots> \<longleftrightarrow> (\<forall>c \<in> set s. js_space c)"
    by (simp add: dropWhile_eq_Nil_conv)
  finally show ?thesis by (simp add: js_space_spec)
qed

section \<open>Properties of the normalizer\<close>

lemma props_get_set_same: "props_get (props_set ps k v) k = v"
  by (induction ps) auto

lemma props_get_set_other: "k' \<noteq> k \<Longrightarrow> props_get (props_set ps k v) k' = props_get ps k'"
  by (induction ps) auto

lemma get_set_same:
  "truthy out \<Longrightarrow> typeof_object out \<Longrightarrow> get_prop (set_prop out k v) k = v"
  by (cases out) (simp_all add: props_get_set_same)

lemma get_set_other: "k' \<noteq> k \<Longrightarrow> get_prop (set_prop out k v) k' = get_prop out k'"
  by (cases out) (simp_all add: props_get_set_other)

lemma set_prop_object:
  "truthy out \<Longrightarrow> typeof_object out \<Longrightarrow> truthy (set_prop out k v) \<and> typeof_object (set_prop out k v)"
  by (cases out) simp_all

lemma enabled_one_object:
  "get_prop v ''enabled'' = JNum 1 \<Longrightarrow> truthy v \<and> typeof_object v"
  by (cases v) simp_all

text \<open>
  C7. In help mode the normalizer returns an output whose \<^verbatim>\<open>poll\<close> is the canonical
  disabled poll (\<^verbatim>\<open>enabled\<close> 0, and \<^verbatim>\<open>poll_id\<close>, \<^verbatim>\<open>question\<close> and \<^verbatim>\<open>options\<close> null),
  whatever the raw model output was: an object, an array, a primitive, with or without a
  poll of its own.
\<close>

theorem help_mode_poll_disabled:
  "get_prop (normalizeModelOutput parsed ''help'') ''poll'' = disabledPoll
   \<and> get_prop (get_prop (normalizeModelOutput parsed ''help'') ''poll'') ''enabled'' = JNum 0
   \<and> get_prop (get_prop (normalizeModelOutput parsed ''help'') ''poll'') ''poll_id'' = JNull
   \<and> get_prop (get_prop (normalizeModelOutput parsed ''help'') ''poll'') ''question'' = JNull
   \<and> get_prop (get_prop (normalizeModelOutput parsed ''help'') ''poll'') ''options'' = JNull"
proof -
  have poll: "get_prop (normalizeModelOutput parsed ''help'') ''poll'' = disabledPoll"
    unfolding normalizeModelOutput_def Let_def
    by (simp add: get_set_same set_prop_object)
  show ?thesis
    unfolding poll by (simp add: disabledPoll_def)
qed

theorem help_mode_poll_disabled_witness:
  "get_prop
     (normalizeModelOutput
        (JObj [(''response'', JStr ''hint''),
               (''clear_active'', JNum 0),
               (''poll'', JObj [(''enabled'', JNum 1), (''poll_id'', JStr ''q1''),
                                (''question'', JStr ''Which one?''),
                                (''options'', JArr [] [])])])
        ''help'')
     ''poll''
   = JObj [(''enabled'', JNum 0), (''poll_id'', JNull), (''question'', JNull), (''options'', JNull)]"
  using help_mode_poll_disabled
    [of "JObj [(''response'', JStr ''hint''),
               (''clear_active'', JNum 0),
               (''poll'', JObj [(''enabled'', JNum 1), (''poll_id'', JStr ''q1''),
                                (''question'', JStr ''Which one?''),
                                (''options'', JArr [] [])])]"]
  by (simp add: disabledPoll_def)

text \<open>
  C2. In chat or post_clear mode (any effective mode but help), a raw output with
  \<^verbatim>\<open>poll.enabled = 1\<close>, \<^verbatim>\<open>proposal.enabled = 1\<close> and \<^verbatim>\<open>clear_active = 1\<close> comes back
  with the poll replaced by the disabled poll and nothing else changed: the proposal is the
  one given and \<^verbatim>\<open>clear_active\<close> is still 1.
\<close>

theorem poll_proposal_clear_conflict:
  assumes "mode \<noteq> ''help''"
    and "get_prop (get_prop parsed ''poll'') ''enabled'' = JNum 1"
    and "get_prop (get_prop parsed ''proposal'') ''enabled'' = JNum 1"
    and "get_prop parsed ''clear_active'' = JNum 1"
  shows "normalizeModelOutput parsed mode = set_prop parsed ''poll'' disabledPoll
    \<and> get_prop (normalizeModelOutput parsed mode) ''poll'' = disabledPoll
    \<and> get_prop (normalizeModelOutput parsed mode) ''proposal'' = get_prop parsed ''proposal''
    \<and> get_prop (normalizeModelOutput parsed mode) ''clear_active'' = JNum 1"
proof -
  have obj: "truthy parsed \<and> typeof_object parsed"
    using assms(2) by (cases parsed) auto
  have p1: "truthy (get_prop parsed ''poll'') \<and> typeof_object (get_prop parsed ''poll'')"
    using assms(2) by (rule enabled_one_object)
  have p2: "truthy (get_prop parsed ''proposal'') \<and> typeof_object (get_prop parsed ''proposal'')"
    using assms(3) by (rule enabled_one_object)
  have eq: "normalizeModelOutput parsed mode = set_prop parsed ''poll'' disabledPoll"
    unfolding normalizeModelOutput_def Let_def
    using assms obj p1 p2 by simp
  show ?thesis
    unfolding eq using assms obj by (simp add: get_set_same get_set_other)
qed

theorem poll_proposal_clear_conflict_witness:
  "normalizeModelOutput
     (JObj [(''response'', JStr ''ok''),
            (''clear_active'', JNum 1),
            (''proposal'', JObj [(''enabled'', JNum 1), (''proposal_id'', JStr ''p1'')]),
            (''poll'', JObj [(''enabled'', JNum 1), (''poll_id'', JStr ''q1'')])])
     ''chat''
   = JObj [(''response'', JStr ''ok''),
           (''clear_active'', JNum 1),
           (''proposal'', JObj [(''enabled'', JNum 1), (''proposal_id'', JStr ''p1'')]),
           (''poll'', disabledPoll)]"
  using poll_proposal_clear_conflict
    [of "''chat''" "JObj [(''response'', JStr ''ok''),
            (''clear_active'', JNum 1),
            (''proposal'', JObj [(''enabled'', JNum 1), (''proposal_id'', JStr ''p1'')]),
            (''poll'', JObj [(''enabled'', JNum 1), (''poll_id'', JStr ''q1'')])]"]
  by simp

section \<open>Properties of the objective grader\<close>












section \<open>Properties of the level inference\<close>












section \<open>Properties of the chat route\<close>

lemma help_user_content:
  assumes "effective_mode body = ''help''"
    and "\<not> truthy (request_active body) \<or> get_prop (request_active body) ''enabled'' \<noteq> JNum 1
         \<or> \<not> truthy (get_prop (request_active body) ''problem_type'')
         \<or> trim (request_userText body) = []"
  shows "user_content prompts body = Inr (Inl (error_response 400 ''No active exercise to help with.''))
       \<or> user_content prompts body = Inr (Inl (error_response 400 ''Missing userText''))"
  using assms unfolding user_content_def Let_def by auto

text \<open>
  When the branch on the effective mode answers by itself, whatever the prompts are, the
  handler throws or answers by itself: it does not reach the model.
\<close>

lemma prepare_reject:
  assumes "\<And>prompts. \<exists>r. user_content prompts body = Inr (Inl r) \<and> P r"
    and "P (error_response 500 ''Missing OPENAI_API_KEY'')"
  shows "(\<exists>e. POST_prepare ev (Inr body) = Inl e)
       \<or> (\<exists>r. POST_prepare ev (Inr body) = Inr (Reject r) \<and> P r)"
proof (cases "OPENAI_API_KEY ev = None \<or> OPENAI_API_KEY ev = Some []")
  case True
  then show ?thesis using assms(2) by (auto simp: POST_prepare_def)
next
  case key: False
  show ?thesis
  proof (cases "schema_json ev")
    case (Inl e)
    with key show ?thesis by (auto simp: POST_prepare_def)
  next
    case schema: (Inr sch)
    show ?thesis
    proof (cases "prompts_json ev")
      case (Inl e)
      with key schema show ?thesis by (auto simp: POST_prepare_def)
    next
      case prompts: (Inr pr)
      show ?thesis
      proof (cases "buildSystemPrompt (request_config body) pr")
        case (Inl e)
        with key schema prompts show ?thesis by (auto simp: POST_prepare_def)
      next
        case (Inr sp)
        from assms(1) [of pr] obtain r where "user_content pr body = Inr (Inl r)" and "P r"
          by blast
        with key schema prompts Inr show ?thesis by (auto simp: POST_prepare_def)
      qed
    qed
  qed
qed

text \<open>
  C8. A request whose effective mode is help, and that has no enabled active exercise
  with a problem type or whose user text is empty once trimmed (it consists of white
  space only, the no-break space included), gets an error response (status 400, or 500
  when the environment itself fails) and no request reaches the model: the list of model
  calls is empty and the response does not depend on the model. The handler is a function
  of the environment and the request; it has no session state to change.
\<close>

theorem help_rejected_before_model:
  assumes "effective_mode body = ''help''"
    and "\<not> truthy (request_active body) \<or> get_prop (request_active body) ''enabled'' \<noteq> JNum 1
         \<or> \<not> truthy (get_prop (request_active body) ''problem_type'')
         \<or> (\<forall>c \<in> set (request_userText body). spec_whitespace c)"
  shows "snd (POST ev (Inr body) llm JSON_parse) = []
     \<and> status_of (fst (POST ev (Inr body) llm JSON_parse)) \<in> {400, 500}
     \<and> typeof_string (get_prop (body_of (fst (POST ev (Inr body) llm JSON_parse))) ''error'')
     \<and> POST ev (Inr body) llm JSON_parse = POST ev (Inr body) llm' JSON_parse'"
proof -
  let ?P = "\<lambda>r. \<exists>st msg. r = error_response st msg \<and> st \<in> {400, 500}"
  have blank: "\<not> truthy (request_active body) \<or> get_prop (request_active body) ''enabled'' \<noteq> JNum 1
         \<or> \<not> truthy (get_prop (request_active body) ''problem_type'')
         \<or> trim (request_userText body) = []"
    using assms(2) unfolding trim_empty .
  have "\<exists>r. user_content prompts body = Inr (Inl r) \<and> ?P r" for prompts
    using help_user_content [OF assms(1) blank, of prompts] by auto
  moreover have "?P (error_response 500 ''Missing OPENAI_API_KEY'')"
    by blast
  ultimately have "(\<exists>e. POST_prepare ev (Inr body) = Inl e)
       \<or> (\<exists>r. POST_prepare ev (Inr body) = Inr (Reject r) \<and> ?P r)"
    by (rule prepare_reject)
  then show ?thesis
  proof
    assume "\<exists>e. POST_prepare ev (Inr body) = Inl e"
    then show ?thesis by (auto simp: POST_def error_response_def)
  next
    assume "\<exists>r. POST_prepare ev (Inr body) = Inr (Reject r) \<and> ?P r"
    then show ?thesis by (auto simp: POST_def error_response_def)
  qed
qed

theorem help_rejected_before_model_witness:
  "POST demo_env (Inr (JObj [(''mode'', JStr ''help''), (''userText'', JStr ''Give me a hint'')]))
     demo_llm demo_parse
   = (Response 400 (JObj [(''error'', JStr ''No active exercise to help with.'')]), [])
   \<and> POST demo_env (Inr (JObj [(''mode'', JStr ''chat''), (''userText'', JStr ''  ''),
                               (''active'', demo_blanks)]))
     demo_llm demo_parse
   = (Response 400 (JObj [(''error'', JStr ''Missing userText'')]), [])
   \<and> POST demo_env (Inr (JObj [(''mode'', JStr ''help''),
                               (''userText'', JStr [CHR 0xA0, CHR 0x09, CHR 0x0A]),
                               (''active'', demo_blanks)]))
     demo_llm demo_parse
   = (Response 400 (JObj [(''error'', JStr ''Missing userText'')]), [])"
proof -
  let ?b1 = "JObj [(''mode'', JStr ''help''), (''userText'', JStr ''Give me a hint'')]"
  let ?b2 = "JObj [(''mode'', JStr ''chat''), (''userText'', JStr ''  ''), (''active'', demo_blanks)]"
  let ?b3 = "JObj [(''mode'', JStr ''help''), (''userText'', JStr [CHR 0xA0, CHR 0x09, CHR 0x0A]),
                   (''active'', demo_blanks)]"
  have m1: "effective_mode ?b1 = ''help''"
    by code_simp
  have m2: "effective_mode ?b2 = ''help''"
    by code_simp
  have m3: "effective_mode ?b3 = ''help''"
    by code_simp
  have h1: "\<not> truthy (request_active ?b1)"
    by code_simp
  have h2: "\<forall>c \<in> set (request_userText ?b2). spec_whitespace c"
    by code_simp
  have h3: "\<forall>c \<in> set (request_userText ?b3). spec_whitespace c"
    by code_simp
  have p1: "fst (POST demo_env (Inr ?b1) demo_llm demo_parse)
      = Response 400 (JObj [(''error'', JStr ''No active exercise to help with.'')])"
    by code_simp
  have p2: "fst (POST demo_env (Inr ?b2) demo_llm demo_parse)
      = Response 400 (JObj [(''error'', JStr ''Missing userText'')])"
    by code_simp
  have p3: "fst (POST demo_env (Inr ?b3) demo_llm demo_parse)
      = Response 400 (JObj [(''error'', JStr ''Missing userText'')])"
    by code_simp
  from help_rejected_before_model [of ?b1 demo_env demo_llm demo_parse demo_llm demo_parse] m1 h1
  have s1: "snd (POST demo_env (Inr ?b1) demo_llm demo_parse) = []" by blast
  from help_rejected_before_model [of ?b2 demo_env demo_llm demo_parse demo_llm demo_parse] m2 h2
  have s2: "snd (POST demo_env (Inr ?b2) demo_llm demo_parse) = []" by blast
  from help_rejected_before_model [of ?b3 demo_env demo_llm demo_parse demo_llm demo_parse] m3 h3
  have s3: "snd (POST demo_env (Inr ?b3) demo_llm demo_parse) = []" by blast
  show ?thesis
    using p1 p2 p3 s1 s2 s3 by (simp add: prod_eq_iff)
qed

lemma request_mode_chat:
  assumes "get_prop body ''mode'' \<noteq> JStr ''help''" and "get_prop body ''mode'' \<noteq> JStr ''post_clear''"
  shows "request_mode body = ''chat''" and "request_mode (set_prop body ''mode'' (JStr ''chat'')) = ''chat''"
  using assms by (cases body; simp add: request_mode_def props_get_set_same)+

text \<open>
  C10. A body whose \<^verbatim>\<open>mode\<close> is neither the string help nor the string post_clear
  (absent, not a string, or any other string) is handled in mode chat: the handler answers
  exactly as it answers the same body with \<^verbatim>\<open>mode\<close> set to chat. No response depends on
  the unrecognized value.
\<close>

theorem unrecognized_mode_is_chat:
  assumes "get_prop body ''mode'' \<noteq> JStr ''help''" and "get_prop body ''mode'' \<noteq> JStr ''post_clear''"
  shows "request_mode body = ''chat'' \<and>
     POST ev (Inr body) llm JSON_parse = POST ev (Inr (set_prop body ''mode'' (JStr ''chat''))) llm JSON_parse"
proof -
  let ?b = "set_prop body ''mode'' (JStr ''chat'')"
  have m: "request_mode ?b = request_mode body"
    using request_mode_chat [OF assms] by simp
  have a: "request_active ?b = request_active body"
    by (simp add: request_active_def get_set_other)
  have e: "effective_mode ?b = effective_mode body"
    by (simp add: effective_mode_def m a)
  have u: "request_userText ?b = request_userText body"
    by (simp add: request_userText_def get_set_other)
  have ms: "request_messages ?b = request_messages body"
    by (simp add: request_messages_def get_set_other)
  have c: "request_config ?b = request_config body"
    by (simp add: request_config_def get_set_other)
  have t: "get_prop ?b ''attempt'' = get_prop body ''attempt''"
    and cl: "get_prop ?b ''cleared'' = get_prop body ''cleared''"
    and co: "get_prop ?b ''clearedOutcome'' = get_prop body ''clearedOutcome''"
    by (simp_all add: get_set_other)
  have uc: "user_content prompts ?b = user_content prompts body" for prompts
    unfolding user_content_def e a u t cl co ..
  have "POST_prepare ev (Inr ?b) = POST_prepare ev (Inr body)"
    unfolding POST_prepare_def sum.case e ms c uc ..
  then show ?thesis
    using request_mode_chat(1) [OF assms] by (simp add: POST_def)
qed

theorem unrecognized_mode_is_chat_witness:
  "request_mode (JObj [(''mode'', JStr ''quiz''), (''userText'', JStr ''Hola'')]) = ''chat''
   \<and> POST demo_env (Inr (JObj [(''mode'', JStr ''quiz''), (''userText'', JStr ''Hola'')])) demo_llm demo_parse
     = POST demo_env (Inr (JObj [(''mode'', JStr ''chat''), (''userText'', JStr ''Hola'')])) demo_llm demo_parse
   \<and> status_of (fst (POST demo_env (Inr (JObj [(''mode'', JStr ''quiz''), (''userText'', JStr ''Hola'')]))
                     demo_llm demo_parse)) = 200"
proof -
  have s: "status_of (fst (POST demo_env (Inr (JObj [(''mode'', JStr ''chat''), (''userText'', JStr ''Hola'')]))
                     demo_llm demo_parse)) = 200"
    by code_simp
  show ?thesis
    using unrecognized_mode_is_chat
      [of "JObj [(''mode'', JStr ''quiz''), (''userText'', JStr ''Hola'')]" demo_env demo_llm demo_parse] s
    by simp
qed

section \<open>Properties of the redaction\<close>

























section \<open>Properties of the exercise shapes\<close>











section \<open>Properties of the controller\<close>

lemma request_body_mode: "get_prop (request_body c a) ''mode'' = JStr (arg_mode a)"
  by (simp add: request_body_def)

lemma take_proposal_fields:
  "active (take_proposal s r) = active s" "attempt (take_proposal s r) = attempt s"
  "grade (take_proposal s r) = grade s"
  by (simp_all add: take_proposal_def)

lemma append_response_fields:
  "active (append_response s r) = active s" "attempt (append_response s r) = attempt s"
  "grade (append_response s r) = grade s"
  by (simp_all add: append_response_def)

lemma report_error_fields:
  "active (report_error s e) = active s" "attempt (report_error s e) = attempt s"
  "grade (report_error s e) = grade s"
  by (simp_all add: report_error_def)

text \<open>
  The post-clear turn posts exactly one body, in mode post_clear, and touches none of the
  three exercise fields.
\<close>

lemma triggerPostClear_call:
  "snd (triggerPostClear server c s cleared outcome mo) =
     [request_body c \<lparr>arg_mode = ''post_clear'', arg_userText = ''post_clear'',
                       arg_messagesOverride = mo, arg_cleared = cleared,
                       arg_clearedOutcome = outcome\<rparr>]"
  by (simp add: triggerPostClear_def Let_def)

lemma triggerPostClear_post_clear:
  "post_clear_calls (snd (triggerPostClear server c s cleared outcome mo))
     = snd (triggerPostClear server c s cleared outcome mo)
   \<and> length (snd (triggerPostClear server c s cleared outcome mo)) = 1"
  unfolding triggerPostClear_call by (simp add: post_clear_calls_def request_body_mode)

lemma triggerPostClear_fields:
  "active (fst (triggerPostClear server c s cleared outcome mo)) = active s"
  "attempt (fst (triggerPostClear server c s cleared outcome mo)) = attempt s"
  "grade (fst (triggerPostClear server c s cleared outcome mo)) = grade s"
  by (simp_all add: triggerPostClear_def Let_def take_proposal_fields append_response_fields
      report_error_fields split: sum.split)

text \<open>
  The user's Clear: the three fields are null and one post-clear call is made.
\<close>

lemma user_clear:
  assumes "\<not> loading s" and "truthy (active s)" and "get_prop (active s) ''enabled'' = JNum 1"
  shows "active (fst (onClearActive server s)) = JNull
     \<and> attempt (fst (onClearActive server s)) = JNull
     \<and> grade (fst (onClearActive server s)) = JNull
     \<and> length (snd (onClearActive server s)) = 1
     \<and> post_clear_calls (snd (onClearActive server s)) = snd (onClearActive server s)"
  using assms
  by (simp add: onClearActive_def triggerPostClear_fields triggerPostClear_post_clear)

text \<open>
  A model-issued clear of an enabled exercise (\<^verbatim>\<open>sendText\<close> outside onboarding): the three
  fields are null, and of the two bodies posted exactly the second is the post-clear call.
\<close>

lemma model_clear:
  assumes "trim text \<noteq> []" and "\<not> loading s" and "conversationMode s \<noteq> ''onboarding''"
    and "truthy (active s)" and "get_prop (active s) ''enabled'' = JNum 1"
    and "callApi server s
           \<lparr>arg_mode = (if truthy (get_prop (active s) ''problem_type'') then ''help'' else ''chat''),
            arg_userText = trim text,
            arg_messagesOverride = Some (messages s @ [JObj [(''role'', JStr ''user''),
                                                             (''content'', JStr (trim text))]]),
            arg_cleared = JUndefined, arg_clearedOutcome = JUndefined\<rparr> = Inr result"
    and "get_prop result ''clear_active'' = JNum 1"
  shows "active (fst (sendText server s text)) = JNull
     \<and> attempt (fst (sendText server s text)) = JNull
     \<and> grade (fst (sendText server s text)) = JNull
     \<and> length (snd (sendText server s text)) = 2
     \<and> length (post_clear_calls (snd (sendText server s text))) = 1"
proof -
  let ?nm = "messages s @ [JObj [(''role'', JStr ''user''), (''content'', JStr (trim text))]]"
  let ?args = "\<lparr>arg_mode = (if truthy (get_prop (active s) ''problem_type'') then ''help'' else ''chat''),
            arg_userText = trim text, arg_messagesOverride = Some ?nm,
            arg_cleared = JUndefined, arg_clearedOutcome = JUndefined\<rparr>"
  let ?s2 = "s\<lparr>error := [], messages := ?nm, loading := True\<rparr>"
  let ?done = "after_result server s ?s2 ?nm result"
  have st: "sendText server s text = ((fst ?done)\<lparr>loading := False\<rparr>, request_body s ?args # snd ?done)"
    using assms(1-6) by (simp add: sendText_def Let_def)
  let ?tp = "triggerPostClear server s
               ((append_response ?s2 result)\<lparr>active := JNull, attempt := JNull, grade := JNull\<rparr>)
               (active s) (JObj [(''kind'', JStr ''model_clear'')])
               (Some (?nm @ [JObj [(''role'', JStr ''assistant''), (''content'', get_prop result ''response'')]]))"
  have d: "?done = (take_proposal (fst ?tp) result, snd ?tp)"
    using assms(4,5,7) by (simp add: after_result_def Let_def)
  have first: "get_prop (request_body s ?args) ''mode'' \<noteq> JStr ''post_clear''"
    by (simp add: request_body_mode)
  show ?thesis
    unfolding st d
    using first triggerPostClear_post_clear [of server s _ "active s" _ _]
    by (simp add: take_proposal_fields triggerPostClear_fields post_clear_calls_def)
qed

text \<open>
  C1, the objective-correct cause. When the grader returns a grade \<open>g\<close> with
  \<^verbatim>\<open>allCorrect\<close> true, \<^verbatim>\<open>onSubmitObjective\<close> nulls the active exercise and the attempt
  and makes exactly one post-clear call, as the claim says, but it leaves \<^verbatim>\<open>grade\<close> set to
  \<open>g\<close>, which is not null: \<^verbatim>\<open>setGrade(g)\<close> runs before the branch and the branch has no
  \<^verbatim>\<open>setGrade(null)\<close>, unlike the user's Clear and the model-issued clear.
\<close>

theorem objective_correct_keeps_grade:
  assumes "truthy (active s)" and "get_prop (active s) ''enabled'' = JNum 1"
    and "gradeObjective (active s) (attempt s) = Inr g"
    and "truthy (get_prop g ''allCorrect'')"
  shows "\<not> isl (onSubmitObjective server s)
     \<and> active (fst (projr (onSubmitObjective server s))) = JNull
     \<and> attempt (fst (projr (onSubmitObjective server s))) = JNull
     \<and> grade (fst (projr (onSubmitObjective server s))) = g
     \<and> g \<noteq> JNull
     \<and> length (snd (projr (onSubmitObjective server s))) = 1
     \<and> post_clear_calls (snd (projr (onSubmitObjective server s)))
         = snd (projr (onSubmitObjective server s))"
proof -
  from assms(4) have g: "truthy g" "g \<noteq> JNull"
    by (cases g; simp)+
  have o: "onSubmitObjective server s =
      Inr (triggerPostClear server s (s\<lparr>grade := g, active := JNull, attempt := JNull\<rparr>)
             (active s) (JObj [(''kind'', JStr ''objective_correct'')]) None)"
    using assms g(1) by (simp add: onSubmitObjective_def Let_def)
  show ?thesis
    unfolding o using g(2)
    by (simp add: triggerPostClear_fields triggerPostClear_post_clear)
qed

theorem objective_correct_keeps_grade_witness:
  "grade (fst (projr (onSubmitObjective demo_server demo_session)))
     = JObj [(''kind'', JStr ''fill_in_blank''),
             (''allCorrect'', JBool True),
             (''results'', JArr [JObj [(''id'', JStr ''b1''), (''correct'', JBool True)]] [])]
   \<and> active (fst (projr (onSubmitObjective demo_server demo_session))) = JNull
   \<and> attempt (fst (projr (onSubmitObjective demo_server demo_session))) = JNull
   \<and> length (snd (projr (onSubmitObjective demo_server demo_session))) = 1"
proof -
  let ?g = "JObj [(''kind'', JStr ''fill_in_blank''),
             (''allCorrect'', JBool True),
             (''results'', JArr [JObj [(''id'', JStr ''b1''), (''correct'', JBool True)]] [])]"
  have a: "truthy (active demo_session)"
    and e: "get_prop (active demo_session) ''enabled'' = JNum 1"
    by (simp_all add: demo_session_def demo_blanks_def)
  have g: "gradeObjective (active demo_session) (attempt demo_session) = Inr ?g"
    by code_simp
  have t: "truthy (get_prop ?g ''allCorrect'')"
    by simp
  from objective_correct_keeps_grade [OF a e g t, of demo_server]
  show ?thesis by blast
qed

end
